theory Spec2Isabelle
  imports Complex_Main "HOL-Library.AList"
begin

section \<open>Python values\<close>

text \<open>
  The program is \<^verbatim>\<open>src/app.py\<close>: a Flask handler \<^verbatim>\<open>weather\<close> that serves a city's
  weather from an on-disk cache or from an HTTP provider, with retries and fallbacks.

  A Python \<^verbatim>\<open>str\<close> whose characters are inspected (the city name) is a list of Unicode
  code points. Text that is only compared with ASCII literals or tested for emptiness
  (JSON keys and strings, log notes, flash messages) is an Isabelle \<open>string\<close>. An HTTP
  header value is a \<open>string\<close> too: the HTTP library decodes headers as Latin-1, one
  character per byte.
\<close>

type_synonym pystr = "nat list"

definition ascii :: "string \<Rightarrow> pystr" where
  "ascii s = map of_char s"

text \<open>The code points that \<^verbatim>\<open>str.strip()\<close> treats as whitespace.\<close>

definition isspace :: "nat \<Rightarrow> bool" where
  "isspace c \<longleftrightarrow>
     (9 \<le> c \<and> c \<le> 13) \<or> (28 \<le> c \<and> c \<le> 32) \<or> c = 133 \<or> c = 160 \<or> c = 5760 \<or>
     (8192 \<le> c \<and> c \<le> 8202) \<or> c = 8232 \<or> c = 8233 \<or> c = 8239 \<or> c = 8287 \<or> c = 12288"

text \<open>
  The code points of text that encodes to UTF-8: no surrogate, nothing above 0x10FFFF.
  The form parser delivers no other; on a surrogate, \<^verbatim>\<open>text.encode("utf-8")\<close> of line 57
  and the HTTP library would raise.
\<close>

definition scalar_value :: "nat \<Rightarrow> bool" where
  "scalar_value c \<longleftrightarrow> c < 55296 \<or> (57343 < c \<and> c < 1114112)"

definition strip :: "pystr \<Rightarrow> pystr" where
  "strip s = rev (dropWhile isspace (rev (dropWhile isspace s)))"

text \<open>
  A document read by \<^verbatim>\<open>json.load\<close> or \<^verbatim>\<open>resp.json()\<close>. Numbers are reals: every Python
  \<^verbatim>\<open>int\<close> and finite \<^verbatim>\<open>float\<close> is one, and \<^verbatim>\<open>time.time() - ts <= CACHE_TTL\<close> is read as
  exact arithmetic. \<open>JNull\<close> is Python's \<^verbatim>\<open>None\<close>.
\<close>

datatype json =
    JNull
  | JBool bool
  | JNum real
  | JStr string
  | JArr "json list"
  | JObj "(string \<times> json) list"

type_synonym dict = "(string \<times> json) list"

text \<open>Python truthiness, as \<^verbatim>\<open>if x\<close> and \<^verbatim>\<open>not x\<close> test it.\<close>

fun truthy :: "json \<Rightarrow> bool" where
  "truthy JNull = False"
| "truthy (JBool b) = b"
| "truthy (JNum x) = (x \<noteq> 0)"
| "truthy (JStr s) = (s \<noteq> [])"
| "truthy (JArr xs) = (xs \<noteq> [])"
| "truthy (JObj d) = (d \<noteq> [])"

text \<open>\<^verbatim>\<open>d.get(k, dflt)\<close>; \<^verbatim>\<open>d.get(k)\<close> is \<open>dict_get d k JNull\<close>.\<close>

definition dict_get :: "dict \<Rightarrow> string \<Rightarrow> json \<Rightarrow> json" where
  "dict_get d k dflt = (case map_of d k of None \<Rightarrow> dflt | Some v \<Rightarrow> v)"

text \<open>The dict display \<^verbatim>\<open>{**base, **extra}\<close>: a key of \<open>extra\<close> overrides the same key of \<open>base\<close>.\<close>

definition dict_unpack :: "dict \<Rightarrow> dict \<Rightarrow> dict" where
  "dict_unpack base extra = fold (\<lambda>(k, v). AList.update k v) extra base"

text \<open>The operand of \<^verbatim>\<open>time.time() - ts\<close>: a number or a bool, anything else is a TypeError.\<close>

datatype exn =
    RuntimeError
  | ValueError
  | OverflowError
  | OSError
  | JSONDecodeError
  | AttributeError
  | TypeError

definition as_number :: "json \<Rightarrow> exn + real" where
  "as_number v =
     (case v of
        JNum x \<Rightarrow> Inr x
      | JBool b \<Rightarrow> Inr (if b then 1 else 0)
      | _ \<Rightarrow> Inl TypeError)"

text \<open>\<^verbatim>\<open>str(i)\<close> for an integer, used by the f-string of the last branch of the handler.\<close>

fun digits :: "nat \<Rightarrow> string" where
  "digits n =
     (if n < 10 then [char_of (48 + n)]
      else digits (n div 10) @ [char_of (48 + n mod 10)])"

declare digits.simps [simp del]

definition str_int :: "int \<Rightarrow> string" where
  "str_int i = (if i < 0 then CHR ''-'' # digits (nat (- i)) else digits (nat i))"

text \<open>
  \<^verbatim>\<open>int(s)\<close> on a header value. The whitespace it skips at both ends is not that of
  \<^verbatim>\<open>str.strip\<close>: a character below 127 counts when C's \<^verbatim>\<open>isspace\<close> accepts it (9 to 13 and
  32), one from 127 on when it is Unicode whitespace (133 and 160 in Latin-1). One sign
  is allowed, then decimal digits with single underscores between digits. A literal
  with more digits than the interpreter's limit (\<^verbatim>\<open>sys.get_int_max_str_digits()\<close>, 4300 by
  default, 0 for none, tested above 640 digits only) is refused. \<open>None\<close> is the ValueError.
\<close>

definition int_space :: "char \<Rightarrow> bool" where
  "int_space c \<longleftrightarrow>
     (9 \<le> (of_char c :: nat) \<and> (of_char c :: nat) \<le> 13) \<or> (of_char c :: nat) = 32 \<or>
     (of_char c :: nat) = 133 \<or> (of_char c :: nat) = 160"

definition is_digit :: "char \<Rightarrow> bool" where
  "is_digit c \<longleftrightarrow> 48 \<le> (of_char c :: nat) \<and> (of_char c :: nat) \<le> 57"

definition digit_val :: "char \<Rightarrow> nat" where
  "digit_val c = of_char c - 48"

fun int_digits :: "nat \<Rightarrow> string \<Rightarrow> nat option" where
  "int_digits acc [] = Some acc"
| "int_digits acc [c] = (if is_digit c then Some (10 * acc + digit_val c) else None)"
| "int_digits acc (c # d # cs) =
     (if is_digit c then int_digits (10 * acc + digit_val c) (d # cs)
      else if c = CHR ''_'' \<and> is_digit d then int_digits acc (d # cs)
      else None)"

definition strip_header :: "string \<Rightarrow> string" where
  "strip_header s = rev (dropWhile int_space (rev (dropWhile int_space s)))"

definition too_many_digits :: "nat \<Rightarrow> string \<Rightarrow> bool" where
  "too_many_digits max_str_digits ds \<longleftrightarrow>
     640 < length (filter is_digit ds) \<and> 0 < max_str_digits \<and>
     max_str_digits < length (filter is_digit ds)"

definition py_int :: "nat \<Rightarrow> string \<Rightarrow> int option" where
  "py_int max_str_digits s =
     (case strip_header s of
        [] \<Rightarrow> None
      | c # cs \<Rightarrow>
          (let neg = (c = CHR ''-'');
               ds = (if c = CHR ''-'' \<or> c = CHR ''+'' then cs else c # cs)
           in case ds of
                [] \<Rightarrow> None
              | d # _ \<Rightarrow>
                  if is_digit d \<and> \<not> too_many_digits max_str_digits ds
                  then map_option (\<lambda>n. if neg then - int n else int n) (int_digits 0 ds)
                  else None))"

section \<open>Configuration and environment\<close>

text \<open>
  The module-level constants read from \<^verbatim>\<open>config.json\<close> and \<^verbatim>\<open>.env\<close> (lines 19 to 28), and
  four facts of the platform the code calls into: \<^verbatim>\<open>str.lower\<close>, the hex digest of
  \<^verbatim>\<open>hashlib.md5\<close>, the longest duration \<^verbatim>\<open>time.sleep\<close> accepts, and the digit limit of
  \<^verbatim>\<open>int()\<close>.
\<close>

record env =
  API_KEY :: "string option"
  CACHE_TTL :: real
  MAX_RETRIES :: int
  BACKOFF_BASE :: real
  str_lower :: "pystr \<Rightarrow> pystr"
  md5_hexdigest :: "pystr \<Rightarrow> pystr"
  SLEEP_MAX :: real
  INT_MAX_STR_DIGITS :: nat

text \<open>
  What is at a path of the cache directory, when there is something: a name on which
  \<^verbatim>\<open>Path.exists()\<close> raises (before Python 3.14 it passes on every OSError but a missing
  file or directory, a bad descriptor and a symlink loop: a name too long, a permission
  denied), or a file that cannot be opened, or does not parse, or holds a document.
  \<open>write_behaviour\<close> says what opening a path for writing and dumping to it does.
\<close>

datatype cache_file = StatFails | Unreadable | Malformed | Doc json

datatype write_behaviour = WriteOk | OpenFails | DumpFails

datatype event =
    CacheRead pystr
  | CacheWrite pystr
  | HttpGet pystr
  | Sleep real

datatype log_record =
    Request pystr int string string
  | Failure string pystr exn

text \<open>
  Everything the handler reads and changes: the cache directory (by file name), the
  clock of \<^verbatim>\<open>time.time()\<close>, the I/O it performed in order, and the log file.
\<close>

record world =
  files :: "pystr \<Rightarrow> cache_file option"
  disk :: "pystr \<Rightarrow> write_behaviour"
  clock :: real
  trace :: "event list"
  logs :: "log_record list"

text \<open>
  What \<^verbatim>\<open>requests.get\<close> does on one attempt: it raises a \<^verbatim>\<open>RequestException\<close> (with its
  message) or returns a response, of which the code reads the status, the Retry-After
  header and \<^verbatim>\<open>resp.json()\<close> (\<open>None\<close> when that raises).
\<close>

record response =
  status_code :: int
  retry_after :: "string option"
  body :: "json option"

datatype http_result = RequestException string | Responded response

text \<open>
  What the handler returns: \<^verbatim>\<open>render_template\<close> with \<open>weather\<close>, \<open>city\<close>, \<open>source\<close>,
  \<open>cached_time\<close> and \<open>warning\<close>, or \<^verbatim>\<open>flash(message, category)\<close> followed by the redirect.
\<close>

datatype outcome =
    Render json pystr string json "string option"
  | Redirect string string

section \<open>The cache (lines 54 to 100)\<close>

definition slugify :: "env \<Rightarrow> pystr \<Rightarrow> pystr" where
  "slugify env text =
     (let text = str_lower env (strip text);
          h = md5_hexdigest env text
      in map (\<lambda>c. if c = 32 then 95 else c) text @ [95] @ h)"

definition cache_path_for :: "env \<Rightarrow> pystr \<Rightarrow> pystr" where
  "cache_path_for env city = slugify env city @ ascii ''.json''"

definition json_load :: "cache_file \<Rightarrow> exn + json" where
  "json_load f =
     (case f of
        StatFails \<Rightarrow> Inl OSError
      | Unreadable \<Rightarrow> Inl OSError
      | Malformed \<Rightarrow> Inl JSONDecodeError
      | Doc j \<Rightarrow> Inr j)"

text \<open>The body of the \<^verbatim>\<open>try\<close> of \<open>read_cache\<close> (lines 76 to 83), at clock reading \<open>now\<close>.\<close>

definition read_cache_try :: "env \<Rightarrow> real \<Rightarrow> cache_file \<Rightarrow> exn + dict" where
  "read_cache_try env now f =
     (case json_load f of
        Inl e \<Rightarrow> Inl e
      | Inr data \<Rightarrow>
          (case data of
             JObj d \<Rightarrow>
               (case as_number (dict_get d ''timestamp'' (JNum 0)) of
                  Inl e \<Rightarrow> Inl e
                | Inr ts \<Rightarrow>
                    if now - ts \<le> CACHE_TTL env then Inr d
                    else Inr (dict_unpack [(''expired'', JBool True)] d))
           | _ \<Rightarrow> Inl AttributeError))"

text \<open>
  \<open>read_cache\<close> (lines 72 to 86). The test \<^verbatim>\<open>p.exists()\<close> of line 73 stands before the \<^verbatim>\<open>try\<close>:
  what it raises leaves the function. The result is paired with the world, also when
  it is an exception.
\<close>

definition read_cache :: "env \<Rightarrow> pystr \<Rightarrow> world \<Rightarrow> (exn + dict option) \<times> world" where
  "read_cache env city w =
     (let p = cache_path_for env city;
          w1 = w\<lparr>trace := trace w @ [CacheRead p]\<rparr>
      in case files w p of
           None \<Rightarrow> (Inr None, w1)
         | Some StatFails \<Rightarrow> (Inl OSError, w1)
         | Some f \<Rightarrow>
             (case read_cache_try env (clock w) f of
                Inr d \<Rightarrow> (Inr (Some d), w1)
              | Inl e \<Rightarrow>
                  (Inr None, w1\<lparr>logs := logs w1 @ [Failure ''Failed reading cache for'' city e]\<rparr>)))"

definition payload_to_store :: "real \<Rightarrow> json \<Rightarrow> json" where
  "payload_to_store now payload = JObj [(''timestamp'', JNum now), (''data'', payload)]"

definition write_cache :: "env \<Rightarrow> pystr \<Rightarrow> json \<Rightarrow> world \<Rightarrow> world" where
  "write_cache env city payload w =
     (let p = cache_path_for env city;
          w1 = w\<lparr>trace := trace w @ [CacheWrite p]\<rparr>
      in case disk w p of
           WriteOk \<Rightarrow> w1\<lparr>files := (files w)(p \<mapsto> Doc (payload_to_store (clock w) payload))\<rparr>
         | OpenFails \<Rightarrow>
             w1\<lparr>logs := logs w1 @ [Failure ''Failed writing cache for'' city OSError]\<rparr>
         | DumpFails \<Rightarrow>
             w1\<lparr>files := (files w)(p \<mapsto> Malformed),
                logs := logs w1 @ [Failure ''Failed writing cache for'' city OSError]\<rparr>)"

definition log_request :: "pystr \<Rightarrow> int \<Rightarrow> string \<Rightarrow> string \<Rightarrow> world \<Rightarrow> world" where
  "log_request city status source note w =
     w\<lparr>logs := logs w @ [Request city status source note]\<rparr>"

section \<open>The upstream client (lines 107 to 146)\<close>

text \<open>\<^verbatim>\<open>time.sleep(secs)\<close>: a negative duration is a ValueError, one beyond the platform's limit an OverflowError.\<close>

definition py_sleep :: "env \<Rightarrow> real \<Rightarrow> world \<Rightarrow> exn + world" where
  "py_sleep env secs w =
     (if secs < 0 then Inl ValueError
      else if SLEEP_MAX env < secs then Inl OverflowError
      else Inr (w\<lparr>clock := clock w + secs, trace := trace w @ [Sleep secs]\<rparr>))"

definition backoff :: "env \<Rightarrow> nat \<Rightarrow> real" where
  "backoff env attempt = BACKOFF_BASE env * 2 ^ attempt"

definition note_429 :: "string option \<Rightarrow> string" where
  "note_429 ra =
     ''429 Too Many Requests. Retry-After='' @ (case ra of None \<Rightarrow> ''None'' | Some s \<Rightarrow> s)"

text \<open>
  One pass through the body of the \<^verbatim>\<open>while\<close> loop (lines 120 to 144): it returns the
  response, or goes on to the next attempt, or an exception leaves the function.
\<close>

datatype step = Return response world | Continue world

definition attempt_once ::
  "env \<Rightarrow> (nat \<Rightarrow> http_result) \<Rightarrow> pystr \<Rightarrow> nat \<Rightarrow> world \<Rightarrow> exn + step" where
  "attempt_once env net city attempt w =
     (let w1 = w\<lparr>trace := trace w @ [HttpGet city]\<rparr>
      in case net attempt of
           Responded resp \<Rightarrow>
             if status_code resp = 429 then
               (let w2 = log_request city (status_code resp) ''API'' (note_429 (retry_after resp)) w1;
                    slept =
                      (case retry_after resp of
                         None \<Rightarrow> py_sleep env (backoff env attempt) w2
                       | Some s \<Rightarrow>
                           if s \<noteq> [] then
                             py_sleep env
                               (case py_int (INT_MAX_STR_DIGITS env) s of
                                  Some n \<Rightarrow> real_of_int n
                                | None \<Rightarrow> backoff env attempt) w2
                           else py_sleep env (backoff env attempt) w2)
                in case slept of Inl e \<Rightarrow> Inl e | Inr w3 \<Rightarrow> Inr (Continue w3))
             else Inr (Return resp w1)
         | RequestException msg \<Rightarrow>
             (let w2 = log_request city 0 ''API'' (''RequestException: '' @ msg) w1
              in case py_sleep env (backoff env attempt) w2 of
                   Inl e \<Rightarrow> Inl e
                 | Inr w3 \<Rightarrow> Inr (Continue w3)))"

function retry_loop ::
  "env \<Rightarrow> (nat \<Rightarrow> http_result) \<Rightarrow> pystr \<Rightarrow> nat \<Rightarrow> world \<Rightarrow> exn + (response option \<times> world)" where
  "retry_loop env net city attempt w =
     (if int attempt < MAX_RETRIES env then
        (case attempt_once env net city attempt w of
           Inl e \<Rightarrow> Inl e
         | Inr (Return resp w') \<Rightarrow> Inr (Some resp, w')
         | Inr (Continue w') \<Rightarrow> retry_loop env net city (attempt + 1) w')
      else Inr (None, w))"
  by pat_completeness auto
termination
  by (relation "measure (\<lambda>(env, net, city, attempt, w). nat (MAX_RETRIES env - int attempt))") auto

declare retry_loop.simps [simp del]

definition api_key_set :: "env \<Rightarrow> bool" where
  "api_key_set env = (case API_KEY env of None \<Rightarrow> False | Some k \<Rightarrow> k \<noteq> [])"

definition fetch_weather_from_api ::
  "env \<Rightarrow> (nat \<Rightarrow> http_result) \<Rightarrow> pystr \<Rightarrow> world \<Rightarrow> exn + (response option \<times> world)" where
  "fetch_weather_from_api env net city w =
     (if \<not> api_key_set env then Inl RuntimeError
      else retry_loop env net city 0 w)"

section \<open>The handler (lines 154 to 245)\<close>

text \<open>\<^verbatim>\<open>if cache\<close> for the value \<open>read_cache\<close> returned, and \<^verbatim>\<open>cache.get(k, dflt)\<close> under it.\<close>

definition cache_truthy :: "dict option \<Rightarrow> bool" where
  "cache_truthy cache = (case cache of None \<Rightarrow> False | Some d \<Rightarrow> d \<noteq> [])"

definition cache_get :: "dict option \<Rightarrow> string \<Rightarrow> json \<Rightarrow> json" where
  "cache_get cache k dflt = (case cache of None \<Rightarrow> dflt | Some d \<Rightarrow> dict_get d k dflt)"

text \<open>
  The \<^verbatim>\<open>render_template\<close> call that serves the cached document with a warning (lines 175
  to 183, 215 to 223 and 230 to 238).
\<close>

definition render_cached ::
  "pystr \<Rightarrow> dict option \<Rightarrow> string \<Rightarrow> string \<Rightarrow> world \<Rightarrow> outcome \<times> world" where
  "render_cached city cache source warning w =
     (Render (cache_get cache ''data'' JNull) city source
        (cache_get cache ''timestamp'' (JNum (clock w))) (Some warning), w)"

text \<open>Lines 171 to 245: what the handler does with the value of \<open>fetch_weather_from_api\<close>.\<close>

definition weather_after_fetch ::
  "env \<Rightarrow> pystr \<Rightarrow> dict option \<Rightarrow> response option \<Rightarrow> world \<Rightarrow> outcome \<times> world" where
  "weather_after_fetch env city cache resp w =
     (case resp of
        None \<Rightarrow>
          (if cache_truthy cache then
             render_cached city cache ''cache_expired''
               ''API is unreachable; showing the latest cached data.''
               (log_request city 0 ''Cache'' ''API unreachable, served expired cache'' w)
           else (Redirect ''Service is unreachable and no cached data is available.'' ''danger'', w))
      | Some r \<Rightarrow>
          (let status = status_code r in
           if status = 200 then
             (case body r of
                None \<Rightarrow>
                  (Redirect ''Error processing the received data.'' ''danger'',
                   w\<lparr>logs := logs w @ [Failure ''Failed parsing JSON for'' city JSONDecodeError]\<rparr>)
              | Some payload \<Rightarrow>
                  (let w1 = write_cache env city payload w;
                       w2 = log_request city 200 ''API'' ''fetched and cached'' w1
                   in (Render payload city ''api'' (JNum (clock w2)) None, w2)))
           else if status = 401 then
             (Redirect ''Invalid API key. Please check your configuration.'' ''danger'',
              log_request city 401 ''API'' ''invalid api key'' w)
           else if status = 404 then
             (Redirect ''City not found. Please check the city name.'' ''warning'',
              log_request city 404 ''API'' ''city not found'' w)
           else if status = 429 then
             (let w1 = log_request city 429 ''API'' ''rate limited'' w in
              if cache_truthy cache then
                render_cached city cache ''cache_rate_limited''
                  ''Request rate limit reached; showing cached data.'' w1
              else (Redirect ''Rate limit reached and no cached data is available.'' ''danger'', w1))
           else if 500 \<le> status \<and> status < 600 then
             (let w1 = log_request city status ''API'' ''server error'' w in
              if cache_truthy cache then
                render_cached city cache ''cache_server_error''
                  ''Server error; showing the latest cached data.'' w1
              else (Redirect ''Server error occurred and no cached data is available.'' ''danger'', w1))
           else
             (Redirect (''Error fetching data: HTTP '' @ str_int status) ''danger'',
              log_request city status ''API'' ''other error'' w)))"

text \<open>
  The handler of \<^verbatim>\<open>POST /weather\<close>. \<open>form\<close> is the \<open>city\<close> field of the request, \<open>None\<close>
  when the form has none; \<open>net\<close> gives the upstream's behaviour on each attempt.
\<close>

definition weather ::
  "env \<Rightarrow> (nat \<Rightarrow> http_result) \<Rightarrow> pystr option \<Rightarrow> world \<Rightarrow> exn + (outcome \<times> world)" where
  "weather env net form w =
     (let city = strip (case form of None \<Rightarrow> [] | Some v \<Rightarrow> v) in
      if city = [] then Inr (Redirect ''Please enter a city name.'' ''warning'', w)
      else
        (case read_cache env city w of
           (Inl e, w1) \<Rightarrow> Inl e
         | (Inr cache, w1) \<Rightarrow>
             if cache_truthy cache \<and> \<not> truthy (cache_get cache ''expired'' JNull) then
               (let w2 = log_request city 200 ''Cache'' ''served from cache'' w1
                in Inr (Render (cache_get cache ''data'' JNull) city ''cache''
                          (cache_get cache ''timestamp'' (JNum (clock w2))) None, w2))
             else
               (case fetch_weather_from_api env net city w1 of
                  Inl e \<Rightarrow> Inl e
                | Inr (resp, w2) \<Rightarrow> Inr (weather_after_fetch env city cache resp w2))))"

section \<open>Example inputs\<close>

text \<open>
  A configuration with the defaults of lines 20 to 26 and an API key. \<open>example_lower\<close> is
  \<^verbatim>\<open>str.lower\<close> on ASCII text; \<open>example_md5\<close> is a table of the two digests the examples need,
  those of \<^verbatim>\<open>paris\<close> and of the empty text.
\<close>

definition example_lower :: "pystr \<Rightarrow> pystr" where
  "example_lower s = map (\<lambda>c. if 65 \<le> c \<and> c \<le> 90 then c + 32 else c) s"

definition example_md5 :: "pystr \<Rightarrow> pystr" where
  "example_md5 t =
     (if t = ascii ''paris'' then ascii ''ccbee73cd81c7f42405e1920409247ec''
      else if t = [] then ascii ''d41d8cd98f00b204e9800998ecf8427e''
      else [])"

definition example_env :: env where
  "example_env =
     \<lparr>API_KEY = Some ''0123456789abcdef'', CACHE_TTL = 1800, MAX_RETRIES = 3, BACKOFF_BASE = 1,
      str_lower = example_lower, md5_hexdigest = example_md5, SLEEP_MAX = 9223372036,
      INT_MAX_STR_DIGITS = 4300\<rparr>"

definition paris :: pystr where
  "paris = ascii ''Paris''"

definition paris_json :: pystr where
  "paris_json = cache_path_for example_env paris"

definition P1 :: json where
  "P1 = JObj [(''name'', JStr ''Paris''), (''main'', JObj [(''temp'', JNum 21)])]"

text \<open>A world at clock reading 10000 whose cache directory holds the given files.\<close>

definition world_with :: "(pystr \<Rightarrow> cache_file option) \<Rightarrow> world" where
  "world_with fs = \<lparr>files = fs, disk = (\<lambda>p. WriteOk), clock = 10000, trace = [], logs = []\<rparr>"

definition empty_world :: world where
  "empty_world = world_with (\<lambda>p. None)"

text \<open>The entry for Paris was stored at 100, long before the TTL of 1800, or at 9000, within it.\<close>

definition stale_world :: world where
  "stale_world = world_with ((\<lambda>p. None)(paris_json \<mapsto> Doc (payload_to_store 100 P1)))"

definition fresh_world :: world where
  "fresh_world = world_with ((\<lambda>p. None)(paris_json \<mapsto> Doc (payload_to_store 9000 P1)))"

text \<open>
  A city of 300 letters \<^verbatim>\<open>a\<close>, and an empty cache directory on a file system whose names
  have at most 255 characters: \<^verbatim>\<open>Path.exists()\<close> raises on a longer one.
\<close>

definition long_city :: pystr where
  "long_city = replicate 300 97"

definition long_name_world :: world where
  "long_name_world = world_with (\<lambda>p. if 255 < length p then Some StatFails else None)"

definition respond :: "int \<Rightarrow> string option \<Rightarrow> http_result" where
  "respond status ra = Responded \<lparr>status_code = status, retry_after = ra, body = None\<rparr>"

section \<open>Facts about the embedding\<close>

lemma py_int_empty: "py_int m [] = None"
  by (simp add: py_int_def strip_header_def)

text \<open>
  Two literals that \<^verbatim>\<open>int()\<close> refuses: one that starts with the unit separator U+001F, which
  \<^verbatim>\<open>str.strip\<close> would drop but \<^verbatim>\<open>int()\<close> does not, and one with more digits than the limit.
\<close>

lemma py_int_unit_separator: "py_int m (CHR 0x1F # ''3'') = None"
  by (simp add: py_int_def strip_header_def int_space_def is_digit_def)

lemma py_int_digit_limit:
  assumes "640 < n" and "0 < m" and "m < n"
  shows "py_int m (replicate n (CHR ''0'')) = None"
proof -
  obtain k where k: "n = Suc k"
    using assms(1) by (cases n) auto
  have d: "is_digit (CHR ''0'')" "\<not> int_space (CHR ''0'')"
    by (simp_all add: is_digit_def int_space_def)
  have "strip_header (replicate n (CHR ''0'')) = replicate n (CHR ''0'')"
    using d(2) by (simp add: strip_header_def)
  then have "strip_header (replicate n (CHR ''0'')) = CHR ''0'' # replicate k (CHR ''0'')"
    by (simp add: k)
  moreover have "too_many_digits m (CHR ''0'' # replicate k (CHR ''0''))"
    using d(1) assms by (simp add: too_many_digits_def k)
  ultimately show ?thesis
    by (simp add: py_int_def Let_def)
qed

lemma dropWhile_all: "(\<forall>x\<in>set (dropWhile P xs). P x) \<longleftrightarrow> (\<forall>x\<in>set xs. P x)"
  by (induction xs) auto

lemma strip_empty_iff: "strip s = [] \<longleftrightarrow> (\<forall>c\<in>set s. isspace c)"
  by (simp add: strip_def dropWhile_all)

subsection \<open>Reading an entry that \<open>write_cache\<close> stored\<close>

lemma read_cache_try_fresh:
  "now - t \<le> CACHE_TTL env \<Longrightarrow>
   read_cache_try env now (Doc (payload_to_store t p)) = Inr [(''timestamp'', JNum t), (''data'', p)]"
  by (simp add: read_cache_try_def json_load_def payload_to_store_def dict_get_def as_number_def)

lemma read_cache_try_stale:
  "CACHE_TTL env < now - t \<Longrightarrow>
   read_cache_try env now (Doc (payload_to_store t p)) =
     Inr [(''expired'', JBool True), (''timestamp'', JNum t), (''data'', p)]"
  by (simp add: read_cache_try_def json_load_def payload_to_store_def dict_get_def as_number_def
      dict_unpack_def)

lemma read_cache_fresh:
  assumes "files w (cache_path_for env city) = Some (Doc (payload_to_store t p))"
    and "clock w - t \<le> CACHE_TTL env"
  shows "read_cache env city w =
    (Inr (Some [(''timestamp'', JNum t), (''data'', p)]),
     w\<lparr>trace := trace w @ [CacheRead (cache_path_for env city)]\<rparr>)"
  using assms by (simp add: read_cache_def Let_def read_cache_try_fresh)

lemma read_cache_stale:
  assumes "files w (cache_path_for env city) = Some (Doc (payload_to_store t p))"
    and "CACHE_TTL env < clock w - t"
  shows "read_cache env city w =
    (Inr (Some [(''expired'', JBool True), (''timestamp'', JNum t), (''data'', p)]),
     w\<lparr>trace := trace w @ [CacheRead (cache_path_for env city)]\<rparr>)"
  using assms by (simp add: read_cache_def Let_def read_cache_try_stale)

lemma read_cache_returns:
  assumes "files w (cache_path_for env city) \<noteq> Some StatFails"
  shows "\<exists>cache. fst (read_cache env city w) = Inr cache"
proof (cases "files w (cache_path_for env city)")
  case None
  then show ?thesis
    by (simp add: read_cache_def Let_def)
next
  case (Some f)
  with assms have "f \<noteq> StatFails" by simp
  with Some show ?thesis
    by (cases f; cases "read_cache_try env (clock w) f") (simp_all add: read_cache_def Let_def)
qed

lemma read_cache_files: "files (snd (read_cache env city w)) = files w"
  by (simp add: read_cache_def Let_def split: option.splits sum.splits cache_file.splits)

subsection \<open>The retry loop leaves the cache alone and never returns a 429\<close>

lemma attempt_once_Return:
  "attempt_once env net city attempt w = Inr (Return r w') \<Longrightarrow>
   files w' = files w \<and> status_code r \<noteq> 429 \<and> net attempt = Responded r"
  by (auto simp: attempt_once_def Let_def log_request_def
      split: http_result.splits if_splits sum.splits option.splits)

lemma attempt_once_Continue:
  "attempt_once env net city attempt w = Inr (Continue w') \<Longrightarrow> files w' = files w"
  by (auto simp: attempt_once_def Let_def log_request_def py_sleep_def
      split: http_result.splits if_splits sum.splits option.splits)

lemma retry_loop_never_429:
  "retry_loop env net city attempt w = Inr (Some r, w') \<Longrightarrow> status_code r \<noteq> 429"
proof (induction env net city attempt w rule: retry_loop.induct)
  case (1 env net city attempt w)
  show ?case
  proof (cases "attempt_once env net city attempt w")
    case (Inl e)
    with "1.prems" show ?thesis
      by (simp add: retry_loop.simps [of env net city attempt w] split: if_splits)
  next
    case (Inr s)
    show ?thesis
    proof (cases s)
      case (Return r' w1)
      with Inr "1.prems" attempt_once_Return [of env net city attempt w r' w1] show ?thesis
        by (simp add: retry_loop.simps [of env net city attempt w] split: if_splits)
    next
      case (Continue w1)
      with Inr "1.prems" "1.IH" [of s w1] show ?thesis
        by (simp add: retry_loop.simps [of env net city attempt w] split: if_splits)
    qed
  qed
qed

lemma retry_loop_files:
  "retry_loop env net city attempt w = Inr (r, w') \<Longrightarrow> files w' = files w"
proof (induction env net city attempt w rule: retry_loop.induct)
  case (1 env net city attempt w)
  show ?case
  proof (cases "attempt_once env net city attempt w")
    case (Inl e)
    with "1.prems" show ?thesis
      by (simp add: retry_loop.simps [of env net city attempt w] split: if_splits)
  next
    case (Inr s)
    show ?thesis
    proof (cases s)
      case (Return r' w1)
      with Inr "1.prems" attempt_once_Return [of env net city attempt w r' w1] show ?thesis
        by (auto simp add: retry_loop.simps [of env net city attempt w] split: if_splits)
    next
      case (Continue w1)
      with Inr "1.prems" "1.IH" [of s w1] attempt_once_Continue [of env net city attempt w w1]
      show ?thesis
        by (simp add: retry_loop.simps [of env net city attempt w] split: if_splits)
    qed
  qed
qed

lemma fetch_files:
  "fetch_weather_from_api env net city w = Inr (r, w') \<Longrightarrow> files w' = files w"
  by (auto simp: fetch_weather_from_api_def split: if_splits dest: retry_loop_files)

lemma fetch_first_response:
  assumes "api_key_set env" and "0 < MAX_RETRIES env"
    and "net 0 = Responded r" and "status_code r \<noteq> 429"
  shows "fetch_weather_from_api env net city w =
    Inr (Some r, w\<lparr>trace := trace w @ [HttpGet city]\<rparr>)"
  using assms
  by (simp add: fetch_weather_from_api_def retry_loop.simps [of env net city 0 w]
      attempt_once_def Let_def)

subsection \<open>One attempt of the retry loop\<close>

lemma attempt_once_failure:
  assumes "net attempt = RequestException msg"
    and "0 \<le> backoff env attempt" and "backoff env attempt \<le> SLEEP_MAX env"
  shows "attempt_once env net city attempt w =
    Inr (Continue (w\<lparr>clock := clock w + backoff env attempt,
                     trace := trace w @ [HttpGet city, Sleep (backoff env attempt)],
                     logs := logs w @ [Request city 0 ''API'' (''RequestException: '' @ msg)]\<rparr>))"
  using assms by (simp add: attempt_once_def Let_def log_request_def py_sleep_def)

lemma attempt_once_429:
  assumes "net attempt = Responded r" and "status_code r = 429"
    and "d = (case retry_after r of
                None \<Rightarrow> backoff env attempt
              | Some s \<Rightarrow> (case py_int (INT_MAX_STR_DIGITS env) s of
                    None \<Rightarrow> backoff env attempt
                  | Some n \<Rightarrow> real_of_int n))"
    and "0 \<le> d" and "d \<le> SLEEP_MAX env"
  shows "attempt_once env net city attempt w =
    Inr (Continue (w\<lparr>clock := clock w + d,
                     trace := trace w @ [HttpGet city, Sleep d],
                     logs := logs w @ [Request city 429 ''API'' (note_429 (retry_after r))]\<rparr>))"
  using assms
  by (auto simp add: attempt_once_def Let_def log_request_def py_sleep_def py_int_empty
      split: option.splits)

lemma attempt_once_returns:
  assumes "int attempt < MAX_RETRIES env"
    and "0 \<le> BACKOFF_BASE env"
    and "BACKOFF_BASE env * 2 ^ nat (MAX_RETRIES env - 1) \<le> SLEEP_MAX env"
    and "\<forall>r s n. net attempt = Responded r \<and> status_code r = 429 \<and>
           retry_after r = Some s \<and> py_int (INT_MAX_STR_DIGITS env) s = Some n \<longrightarrow> 0 \<le> n \<and> real_of_int n \<le> SLEEP_MAX env"
  shows "\<exists>s. attempt_once env net city attempt w = Inr s"
proof -
  have "attempt \<le> nat (MAX_RETRIES env - 1)"
    using assms(1) by simp
  then have "(2::real) ^ attempt \<le> 2 ^ nat (MAX_RETRIES env - 1)"
    by (simp add: power_increasing)
  then have "BACKOFF_BASE env * 2 ^ attempt \<le> BACKOFF_BASE env * 2 ^ nat (MAX_RETRIES env - 1)"
    using assms(2) by (simp add: mult_left_mono)
  then have b: "0 \<le> backoff env attempt" "backoff env attempt \<le> SLEEP_MAX env"
    using assms(2,3) by (simp_all add: backoff_def)
  show ?thesis
  proof (cases "net attempt")
    case (RequestException m)
    then show ?thesis
      using attempt_once_failure [of net attempt m env city w] b by simp
  next
    case (Responded r)
    show ?thesis
    proof (cases "status_code r = 429")
      case False
      with Responded show ?thesis
        by (simp add: attempt_once_def Let_def)
    next
      case True
      define d where "d = (case retry_after r of
                None \<Rightarrow> backoff env attempt
              | Some s \<Rightarrow> (case py_int (INT_MAX_STR_DIGITS env) s of
                    None \<Rightarrow> backoff env attempt
                  | Some n \<Rightarrow> real_of_int n))"
      have "0 \<le> d \<and> d \<le> SLEEP_MAX env"
        using b assms(4) Responded True by (auto simp: d_def split: option.splits)
      then show ?thesis
        using attempt_once_429 [of net attempt r d env city w] Responded True d_def by simp
    qed
  qed
qed

lemma retry_loop_returns:
  assumes "0 \<le> BACKOFF_BASE env"
    and "BACKOFF_BASE env * 2 ^ nat (MAX_RETRIES env - 1) \<le> SLEEP_MAX env"
    and "\<forall>attempt r s n. int attempt < MAX_RETRIES env \<and> net attempt = Responded r \<and>
           status_code r = 429 \<and> retry_after r = Some s \<and> py_int (INT_MAX_STR_DIGITS env) s = Some n \<longrightarrow>
           0 \<le> n \<and> real_of_int n \<le> SLEEP_MAX env"
  shows "\<exists>r w'. retry_loop env net city attempt w = Inr (r, w')"
  using assms
proof (induction env net city attempt w rule: retry_loop.induct)
  case (1 env net city attempt w)
  show ?case
  proof (cases "int attempt < MAX_RETRIES env")
    case False
    then show ?thesis
      by (simp add: retry_loop.simps [of env net city attempt w])
  next
    case True
    then obtain s where s: "attempt_once env net city attempt w = Inr s"
      using attempt_once_returns [of attempt env net city w] "1.prems" by blast
    show ?thesis
    proof (cases s)
      case (Return r w1)
      with s True show ?thesis
        by (simp add: retry_loop.simps [of env net city attempt w])
    next
      case (Continue w1)
      with s True "1.IH" [OF True s Continue "1.prems"] show ?thesis
        by (simp add: retry_loop.simps [of env net city attempt w])
    qed
  qed
qed

lemma fetch_never_429:
  "fetch_weather_from_api env net city w = Inr (Some r, w') \<Longrightarrow> status_code r \<noteq> 429"
  by (auto simp: fetch_weather_from_api_def split: if_splits dest: retry_loop_never_429)

subsection \<open>The handler when the cache does not answer the request\<close>

lemma weather_not_fresh:
  assumes "city = strip raw" and "city \<noteq> []"
    and "read_cache env city w = (Inr cache, w1)"
    and "\<not> (cache_truthy cache \<and> \<not> truthy (cache_get cache ''expired'' JNull))"
    and "fetch_weather_from_api env net city w1 = Inr (resp, w2)"
  shows "weather env net (Some raw) w = Inr (weather_after_fetch env city cache resp w2)"
  using assms by (auto simp add: weather_def Let_def)

lemma weather_stale:
  assumes "city = strip raw" and "city \<noteq> []"
    and "files w (cache_path_for env city) = Some (Doc (payload_to_store t p))"
    and "CACHE_TTL env < clock w - t"
    and "fetch_weather_from_api env net city (snd (read_cache env city w)) = Inr (resp, w2)"
  shows "weather env net (Some raw) w =
    Inr (weather_after_fetch env city
           (Some [(''expired'', JBool True), (''timestamp'', JNum t), (''data'', p)]) resp w2)"
  using assms(5) read_cache_stale [OF assms(3,4)]
  by (intro weather_not_fresh [OF assms(1,2)])
     (simp_all add: cache_truthy_def cache_get_def dict_get_def)

text \<open>
  No request is ever answered with source \<^verbatim>\<open>cache_rate_limited\<close>: the branch of lines 212
  to 226 needs a response with status 429, and the retry loop never returns one.
\<close>

lemma after_fetch_never_rate_limited:
  assumes "\<forall>r. resp = Some r \<longrightarrow> status_code r \<noteq> 429"
  shows "fst (weather_after_fetch env city cache resp w) \<noteq> Render p c ''cache_rate_limited'' ts wn"
  using assms
  by (cases resp) (auto simp: weather_after_fetch_def render_cached_def Let_def split: option.splits)

lemma weather_never_rate_limited:
  "weather env net form w \<noteq> Inr (Render p c ''cache_rate_limited'' ts wn, w')"
proof
  assume a: "weather env net form w = Inr (Render p c ''cache_rate_limited'' ts wn, w')"
  let ?city = "strip (case form of None \<Rightarrow> [] | Some v \<Rightarrow> v)"
  obtain res w1 where rc: "read_cache env ?city w = (res, w1)"
    by (cases "read_cache env ?city w")
  from a rc obtain cache where res: "res = Inr cache"
    by (cases res) (simp_all add: weather_def Let_def split: if_splits)
  show False
  proof (cases "fetch_weather_from_api env net ?city w1")
    case (Inl e)
    with a rc res show False
      by (simp add: weather_def Let_def split: if_splits)
  next
    case (Inr rw)
    obtain resp w2 where rw: "rw = (resp, w2)" by (cases rw)
    have "\<forall>r. resp = Some r \<longrightarrow> status_code r \<noteq> 429"
      using Inr rw fetch_never_429 by blast
    from after_fetch_never_rate_limited [OF this, of env ?city cache w2 p c ts wn]
    show False
      using a rc res Inr rw by (auto simp add: weather_def Let_def split: if_splits)
  qed
qed

subsection \<open>The example inputs\<close>

lemma strip_paris: "strip paris = paris"
  by (simp add: paris_def ascii_def strip_def isspace_def)

lemma paris_nonempty: "paris \<noteq> []"
  by (simp add: paris_def ascii_def)

lemma example_world_fields:
  "files (world_with fs) = fs" "disk (world_with fs) = (\<lambda>p. WriteOk)"
  "clock (world_with fs) = 10000" "trace (world_with fs) = []" "logs (world_with fs) = []"
  by (simp_all add: world_with_def)

lemma example_env_fields:
  "API_KEY example_env = Some ''0123456789abcdef''" "CACHE_TTL example_env = 1800"
  "MAX_RETRIES example_env = 3" "BACKOFF_BASE example_env = 1"
  "SLEEP_MAX example_env = 9223372036" "INT_MAX_STR_DIGITS example_env = 4300"
  by (simp_all add: example_env_def)

lemma example_key_set: "api_key_set example_env"
  by (simp add: api_key_set_def example_env_fields)

lemma stale_world_facts:
  "files stale_world paris_json = Some (Doc (payload_to_store 100 P1))"
  "clock stale_world = 10000" "trace stale_world = []" "logs stale_world = []"
  by (simp_all add: stale_world_def example_world_fields)

lemma py_int_examples:
  "py_int 4300 ''0'' = Some 0" "py_int 4300 ''2'' = Some 2" "py_int 4300 ''120'' = Some 120"
  "py_int 4300 ''-5'' = Some (- 5)"
  by (simp_all add: py_int_def strip_header_def int_space_def is_digit_def digit_val_def
      too_many_digits_def)

text \<open>
  Two evaluations of the code: the file name \<open>slugify\<close> gives the empty text (it is total),
  and what a negative Retry-After does: \<^verbatim>\<open>time.sleep\<close> raises a ValueError that the
  \<^verbatim>\<open>except requests.RequestException\<close> of line 139 does not catch.
\<close>

lemma slugify_empty_example:
  "slugify example_env [] = ascii ''_d41d8cd98f00b204e9800998ecf8427e''"
  by (simp add: slugify_def strip_def example_env_def example_lower_def example_md5_def ascii_def)

lemma strip_long_city: "strip long_city = long_city"
  by (simp add: long_city_def strip_def isspace_def)

lemma long_city_length: "length long_city = 300"
  by (simp add: long_city_def)

lemma long_city_nonempty: "long_city \<noteq> []"
  using long_city_length by auto

lemma long_city_path_length: "255 < length (cache_path_for example_env long_city)"
  by (simp add: cache_path_for_def slugify_def strip_long_city example_env_def example_lower_def
      long_city_length)

text \<open>
  Inside the \<^verbatim>\<open>try\<close> the cache does fail open: when the file is found and opening or
  parsing it fails, \<open>read_cache\<close> logs the failure and returns \<^verbatim>\<open>None\<close>.
\<close>

lemma read_cache_load_failure:
  assumes "files w (cache_path_for env city) = Some f" and "f \<noteq> StatFails"
    and "json_load f = Inl e"
  shows "read_cache env city w =
    (Inr None, w\<lparr>trace := trace w @ [CacheRead (cache_path_for env city)],
                 logs := logs w @ [Failure ''Failed reading cache for'' city e]\<rparr>)"
  using assms by (cases f) (simp_all add: read_cache_def Let_def read_cache_try_def)

text \<open>
  The same error of \<^verbatim>\<open>p.exists()\<close> leaves the handler, which has no \<^verbatim>\<open>try\<close> around
  \<open>read_cache\<close> (line 162).
\<close>

lemma long_name_weather_raises:
  "weather example_env net (Some long_city) long_name_world = Inl OSError"
  using long_city_path_length
  by (simp add: weather_def Let_def strip_long_city long_city_nonempty read_cache_def
      long_name_world_def example_world_fields)

lemma negative_retry_after_raises:
  "weather example_env (\<lambda>n. respond 429 (Some ''-5'')) (Some paris) empty_world = Inl ValueError"
  by (simp add: weather_def Let_def strip_paris paris_nonempty read_cache_def empty_world_def
      example_world_fields cache_truthy_def fetch_weather_from_api_def example_key_set
      retry_loop.simps [of example_env _ paris 0] example_env_fields attempt_once_def respond_def
      py_int_examples py_sleep_def log_request_def)

section \<open>The claims\<close>

text \<open>
  C1, as stated, fails: without an API key, line 110 raises RuntimeError and the handler
  does not catch it. What holds is C1 amended: the handler returns an outcome for every
  form value that is text (see \<open>scalar_value\<close>), every content of the cache directory and
  every behaviour of the upstream, provided that the API key is set, that
  \<^verbatim>\<open>Path.exists()\<close> does not raise on the city's cache path, that there are at most
  1024 attempts (so that \<^verbatim>\<open>2 ** attempt\<close> is within the range of a float), and that every duration the loop passes to \<^verbatim>\<open>time.sleep\<close> is one it accepts:
  the backoff base is not negative, and the largest backoff and every integer
  Retry-After value of a 429 are within \<open>0\<close> and the platform's limit.
\<close>

theorem weather_returns_outcome:
  assumes "api_key_set env"
    and "list_all scalar_value (case form of None \<Rightarrow> [] | Some v \<Rightarrow> v)"
    and "files w (cache_path_for env (strip (case form of None \<Rightarrow> [] | Some v \<Rightarrow> v))) \<noteq>
           Some StatFails"
    and "MAX_RETRIES env \<le> 1024"
    and "0 \<le> BACKOFF_BASE env"
    and "BACKOFF_BASE env * 2 ^ nat (MAX_RETRIES env - 1) \<le> SLEEP_MAX env"
    and "\<forall>attempt r s n. int attempt < MAX_RETRIES env \<and> net attempt = Responded r \<and>
           status_code r = 429 \<and> retry_after r = Some s \<and>
           py_int (INT_MAX_STR_DIGITS env) s = Some n \<longrightarrow>
           0 \<le> n \<and> real_of_int n \<le> SLEEP_MAX env"
  shows "\<exists>out w'. weather env net form w = Inr (out, w')"
proof -
  let ?city = "strip (case form of None \<Rightarrow> [] | Some v \<Rightarrow> v)"
  obtain cache where rc: "fst (read_cache env ?city w) = Inr cache"
    using read_cache_returns [OF assms(3)] by blast
  have "\<exists>r w'. fetch_weather_from_api env net city v = Inr (r, w')" for city v
    using assms(1) retry_loop_returns [OF assms(5-7)]
    by (simp add: fetch_weather_from_api_def)
  then obtain r w2 where
    f: "fetch_weather_from_api env net ?city (snd (read_cache env ?city w)) = Inr (r, w2)"
    by blast
  show ?thesis
    using f rc by (cases "read_cache env ?city w") (simp add: weather_def Let_def)
qed

theorem weather_returns_outcome_witness:
  "api_key_set example_env \<and> list_all scalar_value paris \<and>
   files empty_world (cache_path_for example_env (strip paris)) \<noteq> Some StatFails \<and>
   MAX_RETRIES example_env \<le> 1024 \<and> 0 \<le> BACKOFF_BASE example_env \<and>
   BACKOFF_BASE example_env * 2 ^ nat (MAX_RETRIES example_env - 1) \<le> SLEEP_MAX example_env \<and>
   py_int (INT_MAX_STR_DIGITS example_env) ''2'' = Some 2 \<and>
   (\<exists>out w'. weather example_env (\<lambda>n. respond 429 (Some ''2'')) (Some paris) empty_world =
      Inr (out, w'))"
  using weather_returns_outcome [where env = example_env and w = empty_world
      and form = "Some paris" and net = "\<lambda>n. respond 429 (Some ''2'')"]
  by (simp add: example_key_set example_env_fields respond_def py_int_examples empty_world_def
      example_world_fields paris_def ascii_def scalar_value_def)

theorem missing_api_key_counterexample:
  "weather (example_env\<lparr>API_KEY := None\<rparr>) (\<lambda>n. respond 200 None) (Some paris) empty_world =
     Inl RuntimeError"
  by (simp add: weather_def Let_def strip_paris paris_nonempty read_cache_def empty_world_def
      example_world_fields cache_truthy_def fetch_weather_from_api_def api_key_set_def)

text \<open>
  C2 does not hold of the code. With a stale entry for Paris and an upstream that answers
  429 to each of the three attempts, the retry loop runs out and returns \<^verbatim>\<open>None\<close>, so the
  handler renders the stale payload with source \<^verbatim>\<open>cache_expired\<close> and the warning of an
  unreachable API, not with source \<^verbatim>\<open>cache_rate_limited\<close>.
\<close>

theorem rate_limited_serves_cache_expired:
  "weather example_env (\<lambda>n. respond 429 None) (Some paris) stale_world =
     Inr (Render P1 paris ''cache_expired'' (JNum 100)
            (Some ''API is unreachable; showing the latest cached data.''),
          stale_world\<lparr>clock := 10007,
            trace := [CacheRead paris_json, HttpGet paris, Sleep 1, HttpGet paris, Sleep 2,
                      HttpGet paris, Sleep 4],
            logs := [Request paris 429 ''API'' ''429 Too Many Requests. Retry-After=None'',
                     Request paris 429 ''API'' ''429 Too Many Requests. Retry-After=None'',
                     Request paris 429 ''API'' ''429 Too Many Requests. Retry-After=None'',
                     Request paris 0 ''Cache'' ''API unreachable, served expired cache'']\<rparr>)"
proof -
  let ?net = "\<lambda>n::nat. respond 429 None"
  let ?r = "\<lparr>status_code = 429, retry_after = None, body = None\<rparr>"
  let ?note = "Request paris 429 ''API'' ''429 Too Many Requests. Retry-After=None''"
  let ?w1 = "stale_world\<lparr>trace := [CacheRead paris_json]\<rparr>"
  let ?w2 = "stale_world\<lparr>clock := 10007,
            trace := [CacheRead paris_json, HttpGet paris, Sleep 1, HttpGet paris, Sleep 2,
                      HttpGet paris, Sleep 4],
            logs := [?note, ?note, ?note]\<rparr>"
  have stale: "CACHE_TTL example_env < clock stale_world - 100"
    by (simp add: example_env_fields stale_world_facts)
  have entry: "files stale_world (cache_path_for example_env paris) =
      Some (Doc (payload_to_store 100 P1))"
    using stale_world_facts(1) by (simp add: paris_json_def)
  have w1: "snd (read_cache example_env paris stale_world) = ?w1"
    using read_cache_stale [OF entry stale] by (simp add: stale_world_facts paris_json_def)
  have step: "attempt_once example_env ?net paris k v =
      Inr (Continue (v\<lparr>clock := clock v + 2 ^ k, trace := trace v @ [HttpGet paris, Sleep (2 ^ k)],
                        logs := logs v @ [?note]\<rparr>))" if "k < 3" for k and v :: world
  proof -
    from that have "k = 0 \<or> k = 1 \<or> k = 2" by auto
    then have "(2::real) ^ k \<le> 9223372036" by auto
    then show ?thesis
      using attempt_once_429 [of ?net k ?r "2 ^ k" example_env paris v]
      by (simp add: respond_def backoff_def example_env_fields note_429_def)
  qed
  have "fetch_weather_from_api example_env ?net paris ?w1 = retry_loop example_env ?net paris 0 ?w1"
    by (simp add: fetch_weather_from_api_def example_key_set)
  also have "\<dots> = Inr (None, ?w2)"
    by (simp add: retry_loop.simps [of example_env ?net paris] step example_env_fields
        stale_world_facts)
  finally have fetched: "fetch_weather_from_api example_env ?net paris
      (snd (read_cache example_env paris stale_world)) = Inr (None, ?w2)"
    by (simp add: w1)
  show ?thesis
    using weather_stale [of paris paris stale_world example_env 100 P1 ?net None ?w2]
      fetched stale entry
    by (simp add: strip_paris paris_nonempty weather_after_fetch_def render_cached_def
        cache_truthy_def cache_get_def dict_get_def log_request_def stale_world_facts)
qed

text \<open>
  C3. When the cache file of the city holds an entry that \<open>write_cache\<close> stored at \<open>t\<close> with
  payload \<open>p\<close>, and the entry is within the TTL, the handler renders \<open>p\<close> with source
  \<^verbatim>\<open>cache\<close> and stored time \<open>t\<close>. The only I/O it adds is the read of the cache file: no
  HTTP request is made, whatever the upstream and the API key are.
\<close>

theorem fresh_cache_served:
  assumes "city = strip raw" and "city \<noteq> []"
    and "files w (cache_path_for env city) = Some (Doc (payload_to_store t p))"
    and "clock w - t \<le> CACHE_TTL env"
  shows "weather env net (Some raw) w =
    Inr (Render p city ''cache'' (JNum t) None,
         w\<lparr>trace := trace w @ [CacheRead (cache_path_for env city)],
           logs := logs w @ [Request city 200 ''Cache'' ''served from cache'']\<rparr>)"
  using assms(1,2) read_cache_fresh [OF assms(3,4)]
  by (simp add: weather_def Let_def cache_truthy_def cache_get_def dict_get_def log_request_def)

theorem fresh_cache_served_witness:
  "strip paris = paris \<and> paris \<noteq> [] \<and>
   files fresh_world paris_json = Some (Doc (payload_to_store 9000 P1)) \<and>
   clock fresh_world - 9000 \<le> CACHE_TTL example_env \<and>
   weather (example_env\<lparr>API_KEY := None\<rparr>) (\<lambda>n. RequestException ''unreachable'')
       (Some paris) fresh_world =
     Inr (Render P1 paris ''cache'' (JNum 9000) None,
          fresh_world\<lparr>trace := [CacheRead paris_json],
            logs := [Request paris 200 ''Cache'' ''served from cache'']\<rparr>)"
  using fresh_cache_served [of paris paris fresh_world "example_env\<lparr>API_KEY := None\<rparr>" 9000 P1
      "\<lambda>n. RequestException ''unreachable''"]
  by (simp add: strip_paris paris_nonempty fresh_world_def example_world_fields example_env_fields
      paris_json_def cache_path_for_def slugify_def)






text \<open>
  C6. With a stale entry in the cache, when \<open>fetch_weather_from_api\<close> returns a response
  with status 401 the handler flashes the invalid-key message and redirects: the stale
  payload is not rendered.
\<close>

theorem credential_error_no_fallback:
  assumes "city = strip raw" and "city \<noteq> []"
    and "files w (cache_path_for env city) = Some (Doc (payload_to_store t p))"
    and "CACHE_TTL env < clock w - t"
    and "fetch_weather_from_api env net city (snd (read_cache env city w)) = Inr (Some r, w2)"
    and "status_code r = 401"
  shows "weather env net (Some raw) w =
    Inr (Redirect ''Invalid API key. Please check your configuration.'' ''danger'',
         log_request city 401 ''API'' ''invalid api key'' w2)"
  using weather_stale [OF assms(1-5)] assms(6)
  by (simp add: weather_after_fetch_def)

theorem credential_error_no_fallback_witness:
  "strip paris = paris \<and> paris \<noteq> [] \<and>
   files stale_world paris_json = Some (Doc (payload_to_store 100 P1)) \<and>
   CACHE_TTL example_env < clock stale_world - 100 \<and>
   fetch_weather_from_api example_env (\<lambda>n. respond 401 None) paris
       (snd (read_cache example_env paris stale_world)) =
     Inr (Some \<lparr>status_code = 401, retry_after = None, body = None\<rparr>,
          stale_world\<lparr>trace := [CacheRead paris_json, HttpGet paris]\<rparr>) \<and>
   weather example_env (\<lambda>n. respond 401 None) (Some paris) stale_world =
     Inr (Redirect ''Invalid API key. Please check your configuration.'' ''danger'',
          stale_world\<lparr>trace := [CacheRead paris_json, HttpGet paris],
            logs := [Request paris 401 ''API'' ''invalid api key'']\<rparr>)"
proof -
  let ?r = "\<lparr>status_code = 401, retry_after = None, body = None\<rparr>"
  let ?w2 = "stale_world\<lparr>trace := [CacheRead paris_json, HttpGet paris]\<rparr>"
  have stale: "CACHE_TTL example_env < clock stale_world - 100"
    by (simp add: example_env_fields stale_world_facts)
  have entry: "files stale_world (cache_path_for example_env paris) =
      Some (Doc (payload_to_store 100 P1))"
    using stale_world_facts(1) by (simp add: paris_json_def)
  have fetched: "fetch_weather_from_api example_env (\<lambda>n. respond 401 None) paris
      (snd (read_cache example_env paris stale_world)) = Inr (Some ?r, ?w2)"
    using fetch_first_response [of example_env "\<lambda>n. respond 401 None" ?r paris
        "snd (read_cache example_env paris stale_world)"]
      read_cache_stale [OF entry stale]
    by (simp add: example_key_set example_env_fields respond_def stale_world_facts paris_json_def)
  show ?thesis
    using credential_error_no_fallback [of paris paris stale_world example_env 100 P1
        "\<lambda>n. respond 401 None" ?r ?w2] fetched stale entry
    by (simp add: strip_paris paris_nonempty stale_world_facts log_request_def paris_json_def)
qed

text \<open>
  C7. With a stale entry holding payload \<open>p\<close> stored at \<open>t\<close>, when \<open>fetch_weather_from_api\<close>
  returns a response with a 5xx status (503 is one) the handler renders \<open>p\<close> with source
  \<^verbatim>\<open>cache_server_error\<close> and stored time \<open>t\<close>, and the cache directory is what it was
  before the request.
\<close>

theorem server_error_serves_stale:
  assumes "city = strip raw" and "city \<noteq> []"
    and "files w (cache_path_for env city) = Some (Doc (payload_to_store t p))"
    and "CACHE_TTL env < clock w - t"
    and "fetch_weather_from_api env net city (snd (read_cache env city w)) = Inr (Some r, w2)"
    and "500 \<le> status_code r" and "status_code r < 600"
  shows "weather env net (Some raw) w =
      Inr (Render p city ''cache_server_error'' (JNum t)
             (Some ''Server error; showing the latest cached data.''),
           log_request city (status_code r) ''API'' ''server error'' w2)
    \<and> files (log_request city (status_code r) ''API'' ''server error'' w2) = files w"
proof -
  have "files w2 = files w"
    using fetch_files [OF assms(5)] by (simp add: read_cache_files)
  then show ?thesis
    using weather_stale [OF assms(1-5)] assms(6,7)
    by (simp add: weather_after_fetch_def render_cached_def cache_truthy_def cache_get_def
        dict_get_def log_request_def Let_def)
qed

theorem server_error_serves_stale_witness:
  "strip paris = paris \<and> paris \<noteq> [] \<and>
   files stale_world paris_json = Some (Doc (payload_to_store 100 P1)) \<and>
   CACHE_TTL example_env < clock stale_world - 100 \<and>
   fetch_weather_from_api example_env (\<lambda>n. respond 503 None) paris
       (snd (read_cache example_env paris stale_world)) =
     Inr (Some \<lparr>status_code = 503, retry_after = None, body = None\<rparr>,
          stale_world\<lparr>trace := [CacheRead paris_json, HttpGet paris]\<rparr>) \<and>
   weather example_env (\<lambda>n. respond 503 None) (Some paris) stale_world =
     Inr (Render P1 paris ''cache_server_error'' (JNum 100)
            (Some ''Server error; showing the latest cached data.''),
          stale_world\<lparr>trace := [CacheRead paris_json, HttpGet paris],
            logs := [Request paris 503 ''API'' ''server error'']\<rparr>) \<and>
   files (stale_world\<lparr>trace := [CacheRead paris_json, HttpGet paris],
            logs := [Request paris 503 ''API'' ''server error'']\<rparr>) paris_json =
     Some (Doc (payload_to_store 100 P1))"
proof -
  let ?r = "\<lparr>status_code = 503, retry_after = None, body = None\<rparr>"
  let ?w2 = "stale_world\<lparr>trace := [CacheRead paris_json, HttpGet paris]\<rparr>"
  have stale: "CACHE_TTL example_env < clock stale_world - 100"
    by (simp add: example_env_fields stale_world_facts)
  have entry: "files stale_world (cache_path_for example_env paris) =
      Some (Doc (payload_to_store 100 P1))"
    using stale_world_facts(1) by (simp add: paris_json_def)
  have fetched: "fetch_weather_from_api example_env (\<lambda>n. respond 503 None) paris
      (snd (read_cache example_env paris stale_world)) = Inr (Some ?r, ?w2)"
    using fetch_first_response [of example_env "\<lambda>n. respond 503 None" ?r paris
        "snd (read_cache example_env paris stale_world)"]
      read_cache_stale [OF entry stale]
    by (simp add: example_key_set example_env_fields respond_def stale_world_facts paris_json_def)
  show ?thesis
    using server_error_serves_stale [of paris paris stale_world example_env 100 P1
        "\<lambda>n. respond 503 None" ?r ?w2] fetched stale entry
    by (simp add: strip_paris paris_nonempty stale_world_facts log_request_def paris_json_def)
qed

text \<open>
  C8 does not hold of the code. For the city of 300 letters, on a file system whose
  names have at most 255 characters, \<^verbatim>\<open>p.exists()\<close> of line 73 raises an OSError (before
  Python 3.14). The call stands before the \<^verbatim>\<open>try\<close> of lines 75 to 86, so the error leaves
  \<open>read_cache\<close>: it is not logged and \<^verbatim>\<open>None\<close> is not returned.
\<close>

theorem long_name_read_cache_raises:
  "fst (read_cache example_env long_city long_name_world) = Inl OSError"
  using long_city_path_length
  by (simp add: read_cache_def Let_def long_name_world_def example_world_fields)

text \<open>
  C9. After a \<open>write_cache\<close> that succeeds, a \<open>read_cache\<close> of the same city at the same clock
  reading, under a TTL that is not negative, returns the stored document itself (not the
  copy marked \<^verbatim>\<open>expired\<close>), and its \<^verbatim>\<open>data\<close> is the payload written.
\<close>

theorem write_then_read_fresh:
  assumes "disk w (cache_path_for env city) = WriteOk" and "0 \<le> CACHE_TTL env"
  shows "fst (read_cache env city (write_cache env city p w)) =
    Inr (Some [(''timestamp'', JNum (clock w)), (''data'', p)])"
proof -
  let ?w = "write_cache env city p w"
  have "files ?w (cache_path_for env city) = Some (Doc (payload_to_store (clock w) p))"
    and "clock ?w = clock w"
    using assms(1) by (simp_all add: write_cache_def Let_def)
  then show ?thesis
    using assms(2) read_cache_fresh [of ?w env city "clock w" p] by simp
qed

theorem write_then_read_fresh_witness:
  "disk empty_world paris_json = WriteOk \<and> 0 \<le> CACHE_TTL example_env \<and>
   fst (read_cache example_env paris (write_cache example_env paris P1 empty_world)) =
     Inr (Some [(''timestamp'', JNum 10000), (''data'', P1)])"
  using write_then_read_fresh [of empty_world example_env paris P1]
  by (simp add: empty_world_def example_world_fields example_env_fields paris_json_def)

text \<open>
  C10. When the request has no \<open>city\<close> field, or the field is empty or all whitespace, the
  handler flashes a warning and redirects, and the world is the one it started from:
  no cache file was read or written (so no file name was derived), no HTTP request was
  made, nothing was logged.
\<close>

theorem empty_city_rejected:
  assumes "\<forall>c\<in>set (case form of None \<Rightarrow> [] | Some v \<Rightarrow> v). isspace c"
  shows "weather env net form w = Inr (Redirect ''Please enter a city name.'' ''warning'', w)"
  using assms by (simp add: weather_def strip_empty_iff)

theorem empty_city_rejected_witness:
  "isspace 32 \<and> isspace 9 \<and> isspace 160 \<and>
   weather example_env (\<lambda>n. respond 200 None) (Some [32, 9, 160]) fresh_world =
     Inr (Redirect ''Please enter a city name.'' ''warning'', fresh_world)"
  using empty_city_rejected [of "Some [32, 9, 160]" example_env "\<lambda>n. respond 200 None" fresh_world]
  by (simp add: isspace_def)

end
